theory Spec2Isabelle
  imports Complex_Main "HOL-Library.Multiset"
begin

section \<open>sesx2pl: Audition session to playlist (CUE, M3U)\<close>

text \<open>
  A shallow embedding of \<^verbatim>\<open>index.js\<close>. The script is one top-level block followed by five
  helper functions; the block is embedded as \<open>main\<close>, with its phases (checks, scan, build,
  sort, render, write) as functions of their own, and every helper keeps its name.

  Conventions.
  \<^item> A JavaScript string is a \<open>string\<close>: a list of 8-bit characters, read as the code units
    U+0000 to U+00FF.
  \<^item> \<^verbatim>\<open>undefined\<close> and \<^verbatim>\<open>null\<close> are \<open>None\<close> of an option type; where the script can tell the
    two apart (\<^verbatim>\<open>===\<close> in \<^verbatim>\<open>getFilePathById\<close>) the definition says which one is meant.
  \<^item> An uncaught exception is \<open>Inl TypeError\<close> of a sum type: the run stops there.
  \<^item> A Number is a \<open>jsnum\<close>: \<^verbatim>\<open>NaN\<close>, the two infinities, or a finite value held as an exact
    rational. Rounding to the nearest double is not part of the model, and neither is the
    sign of zero (the script never divides by a zero it has computed).
\<close>

subsection \<open>Strings\<close>

datatype error = TypeError

definition dq :: char where
  "dq = CHR 0x22"

definition CR :: char where
  "CR = CHR 0x0D"

definition LF :: char where
  "LF = CHR 0x0A"

definition is_ws :: "char \<Rightarrow> bool" where
  \<comment> \<open>WhiteSpace and LineTerminator code units below U+0100: TAB, LF, VT, FF, CR, SP, NBSP.\<close>
  "is_ws c = (c \<in> set [CHR 0x09, CHR 0x0A, CHR 0x0B, CHR 0x0C, CHR 0x0D, CHR 0x20, CHR 0xA0])"

definition is_line_terminator :: "char \<Rightarrow> bool" where
  \<comment> \<open>The code units that \<^verbatim>\<open>.\<close> of a regular expression does not match.\<close>
  "is_line_terminator c = (c = LF \<or> c = CR)"

definition trim :: "string \<Rightarrow> string" where
  "trim s = rev (dropWhile is_ws (rev (dropWhile is_ws s)))"

definition startsWith :: "string \<Rightarrow> string \<Rightarrow> bool" where
  \<comment> \<open>\<^verbatim>\<open>s.startsWith(p)\<close>\<close>
  "startsWith s p = (take (length p) s = p)"

definition capitals :: string where
  \<comment> \<open>The capital letters below U+0100: A to Z, and U+00C0 to U+00DE without U+00D7.\<close>
  "capitals = ''ABCDEFGHIJKLMNOPQRSTUVWXYZ'' @
     [CHR 0xC0, CHR 0xC1, CHR 0xC2, CHR 0xC3, CHR 0xC4, CHR 0xC5, CHR 0xC6, CHR 0xC7, CHR 0xC8, CHR 0xC9, CHR 0xCA, CHR 0xCB, CHR 0xCC, CHR 0xCD, CHR 0xCE, CHR 0xCF,
      CHR 0xD0, CHR 0xD1, CHR 0xD2, CHR 0xD3, CHR 0xD4, CHR 0xD5, CHR 0xD6, CHR 0xD8, CHR 0xD9, CHR 0xDA, CHR 0xDB, CHR 0xDC, CHR 0xDD, CHR 0xDE]"

definition smalls :: string where
  \<comment> \<open>Their small letters, in the same order.\<close>
  "smalls = ''abcdefghijklmnopqrstuvwxyz'' @
     [CHR 0xE0, CHR 0xE1, CHR 0xE2, CHR 0xE3, CHR 0xE4, CHR 0xE5, CHR 0xE6, CHR 0xE7, CHR 0xE8, CHR 0xE9, CHR 0xEA, CHR 0xEB, CHR 0xEC, CHR 0xED, CHR 0xEE, CHR 0xEF,
      CHR 0xF0, CHR 0xF1, CHR 0xF2, CHR 0xF3, CHR 0xF4, CHR 0xF5, CHR 0xF6, CHR 0xF8, CHR 0xF9, CHR 0xFA, CHR 0xFB, CHR 0xFC, CHR 0xFD, CHR 0xFE]"

definition lower_char :: "char \<Rightarrow> char" where
  "lower_char c = (case map_of (zip capitals smalls) c of None \<Rightarrow> c | Some d \<Rightarrow> d)"

definition toLowerCase :: "string \<Rightarrow> string" where
  "toLowerCase s = map lower_char s"

definition upper_char :: "char \<Rightarrow> char" where
  \<comment> \<open>As \<^verbatim>\<open>toUpperCase\<close> on every code unit below U+0100 but three: U+00B5, U+00DF and
      U+00FF have capitals outside of that range and are left as they are.\<close>
  "upper_char c = (case map_of (zip smalls capitals) c of None \<Rightarrow> c | Some d \<Rightarrow> d)"

definition toUpperCase :: "string \<Rightarrow> string" where
  "toUpperCase s = map upper_char s"

definition padStart :: "nat \<Rightarrow> char \<Rightarrow> string \<Rightarrow> string" where
  \<comment> \<open>\<^verbatim>\<open>s.padStart(n, c)\<close> for a one-character filler: a longer string is left as it is.\<close>
  "padStart n c s = replicate (n - length s) c @ s"

fun split_from :: "string \<Rightarrow> string \<Rightarrow> string \<Rightarrow> string list" where
  \<comment> \<open>\<open>split_from sep acc s\<close>: \<open>acc\<close> is the current piece, reversed.\<close>
  "split_from sep acc [] = [rev acc]"
| "split_from sep acc (c # cs) =
     (if take (length sep) (c # cs) = sep
      then rev acc # split_from sep [] (drop (length sep - 1) cs)
      else split_from sep (c # acc) cs)"

definition split :: "string \<Rightarrow> string \<Rightarrow> string list" where
  \<comment> \<open>\<^verbatim>\<open>s.split(sep)\<close> for a non-empty separator.\<close>
  "split s sep = split_from sep [] s"

fun join :: "string \<Rightarrow> string list \<Rightarrow> string" where
  \<comment> \<open>\<^verbatim>\<open>xs.join(sep)\<close>\<close>
  "join sep [] = []"
| "join sep [x] = x"
| "join sep (x # y # ys) = x @ sep @ join sep (y # ys)"

fun replace_all :: "string \<Rightarrow> string \<Rightarrow> string \<Rightarrow> string" where
  \<comment> \<open>\<^verbatim>\<open>s.replace(/pat/g, rep)\<close> for a literal, non-empty pattern.\<close>
  "replace_all pat rep [] = []"
| "replace_all pat rep (c # cs) =
     (if take (length pat) (c # cs) = pat
      then rep @ replace_all pat rep (drop (length pat - 1) cs)
      else c # replace_all pat rep cs)"

subsection \<open>Numbers\<close>

datatype jsnum = NaN | PInf | NInf | Fin rat

definition trunc :: "rat \<Rightarrow> int" where
  \<comment> \<open>Rounding towards zero.\<close>
  "trunc q = (if 0 \<le> q then \<lfloor>q\<rfloor> else - \<lfloor>- q\<rfloor>)"

definition toInt32 :: "jsnum \<Rightarrow> int" where
  \<comment> \<open>\<^verbatim>\<open>x|0\<close> on a Number: ToInt32.\<close>
  "toInt32 x =
     (case x of
        Fin q \<Rightarrow> (let m = trunc q mod 2 ^ 32 in if 2 ^ 31 \<le> m then m - 2 ^ 32 else m)
      | _ \<Rightarrow> 0)"

definition truthy :: "jsnum \<Rightarrow> bool" where
  \<comment> \<open>ToBoolean on a Number: false for zero and \<^verbatim>\<open>NaN\<close>.\<close>
  "truthy x = (x \<noteq> NaN \<and> x \<noteq> Fin 0)"

fun js_add :: "jsnum \<Rightarrow> jsnum \<Rightarrow> jsnum" where
  "js_add (Fin a) (Fin b) = Fin (a + b)"
| "js_add NaN _ = NaN"
| "js_add _ NaN = NaN"
| "js_add PInf NInf = NaN"
| "js_add NInf PInf = NaN"
| "js_add PInf _ = PInf"
| "js_add NInf _ = NInf"
| "js_add _ PInf = PInf"
| "js_add _ NInf = NInf"

fun js_neg :: "jsnum \<Rightarrow> jsnum" where
  "js_neg NaN = NaN"
| "js_neg PInf = NInf"
| "js_neg NInf = PInf"
| "js_neg (Fin a) = Fin (- a)"

definition js_sub :: "jsnum \<Rightarrow> jsnum \<Rightarrow> jsnum" where
  "js_sub a b = js_add a (js_neg b)"

fun js_div :: "jsnum \<Rightarrow> jsnum \<Rightarrow> jsnum" where
  "js_div (Fin a) (Fin b) =
     (if b \<noteq> 0 then Fin (a / b)
      else if a = 0 then NaN else if 0 < a then PInf else NInf)"
| "js_div NaN _ = NaN"
| "js_div _ NaN = NaN"
| "js_div (Fin a) _ = Fin 0"
| "js_div PInf (Fin b) = (if 0 \<le> b then PInf else NInf)"
| "js_div NInf (Fin b) = (if 0 \<le> b then NInf else PInf)"
| "js_div PInf _ = NaN"
| "js_div NInf _ = NaN"

fun js_rem :: "jsnum \<Rightarrow> jsnum \<Rightarrow> jsnum" where
  \<comment> \<open>\<^verbatim>\<open>a % b\<close>: the result has the sign of the dividend.\<close>
  "js_rem (Fin a) (Fin b) = (if b = 0 then NaN else Fin (a - b * of_int (trunc (a / b))))"
| "js_rem (Fin a) PInf = Fin a"
| "js_rem (Fin a) NInf = Fin a"
| "js_rem _ _ = NaN"

definition digit_char :: "nat \<Rightarrow> char" where
  "digit_char n = ''0123456789'' ! (n mod 10)"

fun nat_digits :: "nat \<Rightarrow> string" where
  "nat_digits n =
     (if n < 10 then [digit_char n] else nat_digits (n div 10) @ [digit_char (n mod 10)])"

definition int_toString :: "int \<Rightarrow> string" where
  \<comment> \<open>\<^verbatim>\<open>n.toString()\<close> and \<^verbatim>\<open>`${n}`\<close> for an integral Number.\<close>
  "int_toString i = (if i < 0 then CHR ''-'' # nat_digits (nat (- i)) else nat_digits (nat i))"

subsubsection \<open>String to Number\<close>

definition is_digit :: "char \<Rightarrow> bool" where
  "is_digit c = (48 \<le> (of_char c :: nat) \<and> (of_char c :: nat) \<le> 57)"

definition digit_of :: "char \<Rightarrow> nat" where
  \<comment> \<open>The value of a digit of any base up to sixteen; 16 for every other character.\<close>
  "digit_of c =
     (let n = (of_char c :: nat)
      in if 48 \<le> n \<and> n \<le> 57 then n - 48
         else if 97 \<le> n \<and> n \<le> 102 then n - 87
         else if 65 \<le> n \<and> n \<le> 70 then n - 55
         else 16)"

definition digits_value :: "nat \<Rightarrow> string \<Rightarrow> nat" where
  "digits_value base ds = foldl (\<lambda>a c. base * a + digit_of c) 0 ds"

definition radix_literal :: "nat \<Rightarrow> string \<Rightarrow> jsnum" where
  \<comment> \<open>The digits after \<^verbatim>\<open>0x\<close>, \<^verbatim>\<open>0o\<close> or \<^verbatim>\<open>0b\<close>.\<close>
  "radix_literal base ds =
     (if ds \<noteq> [] \<and> (\<forall>c \<in> set ds. digit_of c < base)
      then Fin (of_nat (digits_value base ds)) else NaN)"

definition exponent_part :: "string \<Rightarrow> int option" where
  \<comment> \<open>Empty, or \<^verbatim>\<open>e\<close> or \<^verbatim>\<open>E\<close>, an optional sign and at least one digit.\<close>
  "exponent_part r =
     (case r of
        [] \<Rightarrow> Some 0
      | c # r' \<Rightarrow>
          if c = CHR ''e'' \<or> c = CHR ''E'' then
            (let (neg, ds) = (case r' of
                                [] \<Rightarrow> (False, [])
                              | s # r'' \<Rightarrow> if s = CHR ''-'' then (True, r'')
                                          else if s = CHR ''+'' then (False, r'')
                                          else (False, r'))
             in if ds \<noteq> [] \<and> (\<forall>d \<in> set ds. is_digit d)
                then Some (if neg then - int (digits_value 10 ds) else int (digits_value 10 ds))
                else None)
          else None)"

definition pow10 :: "int \<Rightarrow> rat" where
  "pow10 e = (if 0 \<le> e then 10 ^ nat e else 1 / 10 ^ nat (- e))"

definition unsigned_decimal :: "string \<Rightarrow> jsnum" where
  \<comment> \<open>StrUnsignedDecimalLiteral: \<^verbatim>\<open>Infinity\<close>, or digits with an optional fraction and
      exponent, at least one digit before the exponent.\<close>
  "unsigned_decimal u =
     (if u = ''Infinity'' then PInf
      else
        (let ip = takeWhile is_digit u;
             r1 = dropWhile is_digit u;
             (fp, r2) = (case r1 of
                           [] \<Rightarrow> ([], [])
                         | c # r \<Rightarrow> if c = CHR ''.''
                                    then (takeWhile is_digit r, dropWhile is_digit r)
                                    else ([], r1))
         in if ip = [] \<and> fp = [] then NaN
            else
              (case exponent_part r2 of
                 None \<Rightarrow> NaN
               | Some e \<Rightarrow>
                   Fin ((of_nat (digits_value 10 ip)
                         + of_nat (digits_value 10 fp) / 10 ^ length fp) * pow10 e))))"

definition string_toNumber :: "string \<Rightarrow> jsnum" where
  \<comment> \<open>ToNumber on a string: surrounding white space is dropped, the empty string is 0, and
      a string that is not a StringNumericLiteral is \<^verbatim>\<open>NaN\<close>.\<close>
  "string_toNumber s =
     (let t = trim s
      in case t of
           [] \<Rightarrow> Fin 0
         | c # r \<Rightarrow>
             if c = CHR ''+'' then unsigned_decimal r
             else if c = CHR ''-'' then js_neg (unsigned_decimal r)
             else if c = CHR ''0'' \<and> r \<noteq> [] \<and> hd r \<in> set ''xX'' then radix_literal 16 (tl r)
             else if c = CHR ''0'' \<and> r \<noteq> [] \<and> hd r \<in> set ''oO'' then radix_literal 8 (tl r)
             else if c = CHR ''0'' \<and> r \<noteq> [] \<and> hd r \<in> set ''bB'' then radix_literal 2 (tl r)
             else unsigned_decimal t)"

definition toNumber :: "string option \<Rightarrow> jsnum" where
  \<comment> \<open>Unary \<^verbatim>\<open>+\<close> on a string or \<^verbatim>\<open>undefined\<close>.\<close>
  "toNumber v = (case v of None \<Rightarrow> NaN | Some s \<Rightarrow> string_toNumber s)"

declare nat_digits.simps [simp del]

subsection \<open>Regular expressions: \<^verbatim>\<open>getRX\<close>\<close>

text \<open>
  Every pattern of the script is a literal prefix, a lazy group \<^verbatim>\<open>(.*?)\<close> and one closing
  character. A match at a position needs the prefix there and then the closing character
  before any line terminator; the group is what lies between. \<^verbatim>\<open>exec\<close> takes the leftmost
  position that matches.
\<close>

datatype regex = Rx string char

definition rxSampleRate :: regex where
  "rxSampleRate = Rx (''sampleRate='' @ [dq]) dq"

definition rxTrackName :: regex where
  "rxTrackName = Rx ''>'' (CHR ''<'')"

definition rxPath :: regex where
  "rxPath = Rx (''absolutePath='' @ [dq]) dq"

definition rxName :: regex where
  "rxName = Rx (''name='' @ [dq]) dq"

definition rxId :: regex where
  "rxId = Rx (''id='' @ [dq]) dq"

definition rxStartPoint :: regex where
  "rxStartPoint = Rx (''startPoint='' @ [dq]) dq"

definition rxEndPoint :: regex where
  "rxEndPoint = Rx (''endPoint='' @ [dq]) dq"

definition rxFileId :: regex where
  "rxFileId = Rx (''fileID='' @ [dq]) dq"

definition match_here :: "string \<Rightarrow> char \<Rightarrow> string \<Rightarrow> string option" where
  "match_here pre close s =
     (if startsWith s pre
      then (let r = drop (length pre) s;
                inside = (\<lambda>c. c \<noteq> close \<and> \<not> is_line_terminator c)
            in case dropWhile inside r of
                 [] \<Rightarrow> None
               | c # _ \<Rightarrow> if c = close then Some (takeWhile inside r) else None)
      else None)"

fun exec :: "string \<Rightarrow> char \<Rightarrow> string \<Rightarrow> string option" where
  "exec pre close [] = match_here pre close []"
| "exec pre close (c # cs) =
     (case match_here pre close (c # cs) of
        Some m \<Rightarrow> Some m
      | None \<Rightarrow> exec pre close cs)"

definition getRX :: "regex \<Rightarrow> string \<Rightarrow> string option" where
  \<comment> \<open>\<open>None\<close> is \<^verbatim>\<open>undefined\<close>. The patterns have neither the \<^verbatim>\<open>g\<close> nor the \<^verbatim>\<open>y\<close> flag, so
      \<^verbatim>\<open>exec\<close> ignores the \<^verbatim>\<open>lastIndex\<close> that the function increments.\<close>
  "getRX rx str = (case rx of Rx pre close \<Rightarrow> exec pre close str)"

subsection \<open>Data\<close>

record audio_track =
  tname :: "string option"
  tline :: nat
  clips :: "nat list"

record file_ref =
  fpath :: string
  fid :: "string option"

record entry =
  startPoint :: jsnum
  duration :: jsnum
  path :: "string option"
  name :: string

record options =
  args :: "string list"
  track :: "string option"
  source :: "string option"
  delta :: "string option"
  info :: bool

text \<open>
  The functions of Node's \<^verbatim>\<open>path\<close> module and the file system are not part of the script:
  they are parameters. \<open>readFile\<close> is \<open>None\<close> where \<^verbatim>\<open>readFileSync\<close> throws, and \<open>canWrite\<close>
  is false where \<^verbatim>\<open>writeFileSync\<close> throws. The path functions are given for strings; the
  \<^verbatim>\<open>TypeError\<close> that \<^verbatim>\<open>Path.win32.basename\<close> throws on a value that is not a string is
  written out in \<open>makeM3U\<close>.
\<close>

record path_module =
  extname :: "string \<Rightarrow> string"
  basename :: "string \<Rightarrow> string"
  win32_basename :: "string \<Rightarrow> string"
  path_join :: "string \<Rightarrow> string \<Rightarrow> string"

record filesys =
  readFile :: "string \<Rightarrow> string option"
  canWrite :: "string \<Rightarrow> bool"

record outcome =
  logged :: "string list"
  usage :: bool
  written :: "(string \<times> string) option"

subsection \<open>Checks\<close>

definition args_rejected :: "path_module \<Rightarrow> string list \<Rightarrow> bool" where
  "args_rejected P av =
     (length av < 2 \<or>
      toLowerCase (extname P (av ! 0)) \<noteq> ''.sesx'' \<or>
      (toLowerCase (extname P (av ! 1)) \<noteq> ''.m3u'' \<and>
       toLowerCase (extname P (av ! 1)) \<noteq> ''.cue''))"

definition signature_rejected :: "string list \<Rightarrow> error + bool" where
  \<comment> \<open>The condition of line 56. \<^verbatim>\<open>&&\<close> reads \<^verbatim>\<open>sesx[1]\<close> only when the first line has no
      \<^verbatim>\<open><?xml\<close>; \<^verbatim>\<open>sesx[1]\<close> is \<^verbatim>\<open>undefined\<close> in a file of one line, and \<^verbatim>\<open>.trim()\<close> on it
      throws.\<close>
  "signature_rejected sesx =
     (case sesx of
        [] \<Rightarrow> Inl TypeError
      | l0 # rest \<Rightarrow>
          if \<not> startsWith (toLowerCase (trim l0)) ''<?xml''
          then (case rest of
                  [] \<Rightarrow> Inl TypeError
                | l1 # _ \<Rightarrow> Inr (\<not> startsWith (trim l1) ''<!DOCTYPE sesx>''))
          else Inr False)"

subsection \<open>Scan\<close>

text \<open>
  \<open>cur\<close> is the variable \<^verbatim>\<open>_track\<close>: a reference to a track object, held as that object's
  index in \<open>tracks\<close>, or \<open>None\<close> for \<^verbatim>\<open>undefined\<close>. \<open>name_seen\<close> is \<^verbatim>\<open>_name\<close>.
\<close>

record scan_state =
  tracks :: "audio_track list"
  files :: "file_ref list"
  sampleRate :: jsnum
  cur :: "nat option"
  name_seen :: bool

definition scan_init :: scan_state where
  "scan_init = \<lparr>tracks = [], files = [], sampleRate = Fin 0, cur = None, name_seen = False\<rparr>"

definition scan_line :: "nat \<Rightarrow> string \<Rightarrow> scan_state \<Rightarrow> error + scan_state" where
  "scan_line i raw st =
     (let line = trim raw
      in if startsWith line ''<audioTrack '' then
           Inr (st\<lparr>name_seen := False,
                   tracks := tracks st @ [\<lparr>tname = Some [], tline = i, clips = []\<rparr>],
                   cur := Some (length (tracks st))\<rparr>)
         else if \<not> name_seen st \<and> startsWith line ''<name>'' then
           (case cur st of
              None \<Rightarrow> Inl TypeError
            | Some k \<Rightarrow>
                Inr (st\<lparr>name_seen := True,
                        tracks := (tracks st)[k := (tracks st ! k)\<lparr>tname := getRX rxTrackName line\<rparr>]\<rparr>))
         else if cur st \<noteq> None \<and> startsWith line ''<audioClip '' then
           (case cur st of
              None \<Rightarrow> Inr st
            | Some k \<Rightarrow>
                Inr (st\<lparr>tracks := (tracks st)[k := (tracks st ! k)\<lparr>clips := clips (tracks st ! k) @ [i]\<rparr>]\<rparr>))
         else if startsWith line ''<file '' then
           (let p = getRX rxPath line;
                d = (case getRX rxId line of None \<Rightarrow> None | Some v \<Rightarrow> if v = [] then None else Some v)
            in case p of
                 None \<Rightarrow> Inr st
               | Some pv \<Rightarrow> if pv = [] then Inr st
                           else Inr (st\<lparr>files := files st @ [\<lparr>fpath = pv, fid = d\<rparr>]\<rparr>))
         else if startsWith line ''<session '' then
           Inr (st\<lparr>sampleRate := toNumber (getRX rxSampleRate line)\<rparr>)
         else Inr st)"

fun scan_from :: "nat \<Rightarrow> string list \<Rightarrow> scan_state \<Rightarrow> error + scan_state" where
  \<comment> \<open>\<^verbatim>\<open>sesx.forEach((line, i) => ...)\<close> from index \<open>i\<close> on; an exception ends the loop.\<close>
  "scan_from i [] st = Inr st"
| "scan_from i (l # ls) st =
     (case scan_line i l st of
        Inl e \<Rightarrow> Inl e
      | Inr st' \<Rightarrow> scan_from (Suc i) ls st')"

definition scan :: "string list \<Rightarrow> error + scan_state" where
  "scan sesx = scan_from 0 sesx scan_init"

subsection \<open>Build\<close>

fun getFilePathById :: "file_ref list \<Rightarrow> string option \<Rightarrow> string option" where
  \<comment> \<open>The argument is a string or \<^verbatim>\<open>undefined\<close> (\<open>None\<close>); \<open>fid\<close> is a string or \<^verbatim>\<open>null\<close>
      (\<open>None\<close>), and \<^verbatim>\<open>null === undefined\<close> is false. The result \<open>None\<close> is \<^verbatim>\<open>null\<close>.\<close>
  "getFilePathById [] d = None"
| "getFilePathById (f # fs) d =
     (if (case d of None \<Rightarrow> False | Some v \<Rightarrow> fid f = Some v) then Some (fpath f)
      else getFilePathById fs d)"

definition make_entry :: "file_ref list \<Rightarrow> jsnum \<Rightarrow> string \<Rightarrow> entry" where
  \<comment> \<open>The body of the inner loop of lines 118 to 127, for the clip line \<open>line\<close>.\<close>
  "make_entry fs rate line =
     (let fileID = getRX rxFileId line;
          sp = js_div (toNumber (getRX rxStartPoint line)) rate;
          ep = js_div (toNumber (getRX rxEndPoint line)) rate
      in \<lparr>startPoint = sp,
          duration = js_sub ep sp,
          path = getFilePathById fs fileID,
          name = (case getRX rxName line of None \<Rightarrow> [] | Some n \<Rightarrow> n)\<rparr>)"

definition selection :: "options \<Rightarrow> int list" where
  \<comment> \<open>\<^verbatim>\<open>(options.track || '0').split(',').map(e => e|0)\<close>\<close>
  "selection opts =
     map (\<lambda>e. toInt32 (string_toNumber e))
       (split (case track opts of None \<Rightarrow> ''0'' | Some s \<Rightarrow> if s = [] then ''0'' else s) '','')"

definition has_track :: "audio_track list \<Rightarrow> int \<Rightarrow> bool" where
  \<comment> \<open>\<^verbatim>\<open>tracks[t]\<close> is an object, not \<^verbatim>\<open>undefined\<close>.\<close>
  "has_track ts t = (0 \<le> t \<and> nat t < length ts)"

definition build_step ::
  "string list \<Rightarrow> scan_state \<Rightarrow> entry list \<times> string list \<Rightarrow> int \<Rightarrow> entry list \<times> string list" where
  \<comment> \<open>One round of the outer loop of line 115, on the playlist and the lines logged.\<close>
  "build_step sesx st acc t =
     (if \<not> has_track (tracks st) t
      then (fst acc, snd acc @ [''Project has no track '' @ int_toString t])
      else (fst acc @ map (\<lambda>i. make_entry (files st) (sampleRate st) (sesx ! i))
                        (clips (tracks st ! nat t)),
            snd acc))"

definition build :: "string list \<Rightarrow> scan_state \<Rightarrow> int list \<Rightarrow> entry list \<times> string list" where
  "build sesx st sel = foldl (build_step sesx st) ([], []) sel"

subsection \<open>Sort\<close>

text \<open>
  \<^verbatim>\<open>Array.prototype.sort\<close> is stable. It reads the comparator's result as a Number and takes
  \<^verbatim>\<open>NaN\<close> for 0. With a consistent comparator the result of a stable sort is determined;
  it is computed here by insertion, from the right. With an inconsistent one (a
  \<open>startPoint\<close> that is \<^verbatim>\<open>NaN\<close>) the order is up to the implementation and insertion is
  one choice.
\<close>

definition by_startPoint :: "entry \<Rightarrow> entry \<Rightarrow> jsnum" where
  \<comment> \<open>\<^verbatim>\<open>(a, b) => a.startPoint - b.startPoint\<close>\<close>
  "by_startPoint a b = js_sub (startPoint a) (startPoint b)"

definition positive :: "jsnum \<Rightarrow> bool" where
  "positive v = (case v of PInf \<Rightarrow> True | Fin q \<Rightarrow> 0 < q | _ \<Rightarrow> False)"

fun insert_by :: "('a \<Rightarrow> 'a \<Rightarrow> jsnum) \<Rightarrow> 'a \<Rightarrow> 'a list \<Rightarrow> 'a list" where
  "insert_by cmp x [] = [x]"
| "insert_by cmp x (y # ys) =
     (if positive (cmp x y) then y # insert_by cmp x ys else x # y # ys)"

definition sort_by :: "('a \<Rightarrow> 'a \<Rightarrow> jsnum) \<Rightarrow> 'a list \<Rightarrow> 'a list" where
  "sort_by cmp xs = foldr (insert_by cmp) xs []"

subsection \<open>Render\<close>

definition toCueTS :: "jsnum \<Rightarrow> string" where
  "toCueTS t =
     (let min = int_toString (toInt32 (js_div t (Fin 60)));
          sec = int_toString (toInt32 (js_rem t (Fin 60)))
      in padStart 2 (CHR ''0'') min @ '':'' @ padStart 2 (CHR ''0'') sec @ '':00'')"

definition or_default :: "string option \<Rightarrow> string \<Rightarrow> string" where
  \<comment> \<open>\<^verbatim>\<open>v || d\<close> for a string or \<^verbatim>\<open>undefined\<close>: the empty string is falsy too.\<close>
  "or_default v d = (case v of None \<Rightarrow> d | Some s \<Rightarrow> if s = [] then d else s)"

definition cue_track :: "int \<Rightarrow> nat \<Rightarrow> entry \<Rightarrow> error + string list" where
  \<comment> \<open>The callback of line 159 for entry \<open>e\<close> at index \<open>i\<close>: the four lines it pushes.
      \<^verbatim>\<open>parts[1]\<close> is \<^verbatim>\<open>undefined\<close> when \<^verbatim>\<open>split\<close> gave one piece, and \<^verbatim>\<open>title.replace\<close>
      then throws.\<close>
  "cue_track dl i e =
     (let parts = map (\<lambda>p. if p \<noteq> [] then trim p else []) (split (name e) '' - '')
      in case parts of
           [] \<Rightarrow> Inl TypeError
         | artist # rest \<Rightarrow>
             (case rest of
                [] \<Rightarrow> Inl TypeError
              | title # _ \<Rightarrow>
                  Inr [''  TRACK '' @ padStart 2 (CHR ''0'') (int_toString (int i + 1)) @ '' AUDIO'',
                       ''    TITLE '' @ [dq] @ replace_all ''&amp;'' ''&'' title @ [dq],
                       ''    PERFORMER '' @ [dq] @ replace_all ''&amp;'' ''&'' artist @ [dq],
                       ''    INDEX 01 ''
                         @ toCueTS (js_add (startPoint e) (Fin (of_int dl)))]))"

fun cue_tracks :: "int \<Rightarrow> nat \<Rightarrow> entry list \<Rightarrow> error + string list" where
  \<comment> \<open>\<^verbatim>\<open>playlist.forEach((e, i) => ...)\<close> from index \<open>i\<close> on.\<close>
  "cue_tracks dl i [] = Inr []"
| "cue_tracks dl i (e # es) =
     (case cue_track dl i e of
        Inl err \<Rightarrow> Inl err
      | Inr ls \<Rightarrow> (case cue_tracks dl (Suc i) es of
                    Inl err \<Rightarrow> Inl err
                  | Inr rest \<Rightarrow> Inr (ls @ rest)))"

definition makeCue :: "path_module \<Rightarrow> options \<Rightarrow> int \<Rightarrow> entry list \<Rightarrow> error + string" where
  \<comment> \<open>\<open>dl\<close> is the global \<^verbatim>\<open>delta\<close>, \<open>playlist\<close> the global \<^verbatim>\<open>playlist\<close>.\<close>
  "makeCue P opts dl playlist =
     (let src = basename P (or_default (source opts) ''INSERT-FILENAME-TO-SOURCE.mp3'');
          type = toUpperCase (drop 1 (extname P src));
          data = [''PERFORMER '' @ [dq] @ ''sesx2pl'' @ [dq],
                  ''TITLE '' @ [dq] @ ''Playlist'' @ [dq],
                  ''FILE '' @ [dq] @ src @ [dq] @ '' '' @ type]
      in case cue_tracks dl 0 playlist of
           Inl err \<Rightarrow> Inl err
         | Inr ls \<Rightarrow> Inr (join [CR, LF] (data @ ls @ [[]])))"

definition m3u_entry :: "path_module \<Rightarrow> options \<Rightarrow> entry \<Rightarrow> error + string list" where
  \<comment> \<open>The callback of line 179: the two values it pushes. \<^verbatim>\<open>subs\<close> is truthy when it is a
      non-empty string. \<^verbatim>\<open>Path.win32.basename\<close> throws on \<^verbatim>\<open>null\<close>. Without \<^verbatim>\<open>subs\<close> a
      \<^verbatim>\<open>null\<close> path is pushed as it is, and \<^verbatim>\<open>join\<close> writes \<^verbatim>\<open>null\<close> as the empty string.\<close>
  "m3u_entry P opts e =
     (let extinf = ''#EXTINF:'' @ int_toString (toInt32 (duration e)) @ '',e.name'';
          plain = Inr [extinf, (case path e of None \<Rightarrow> [] | Some p \<Rightarrow> p)]
      in case source opts of
           None \<Rightarrow> plain
         | Some subs \<Rightarrow>
             if subs = [] then plain
             else (case path e of
                     None \<Rightarrow> Inl TypeError
                   | Some p \<Rightarrow> Inr [extinf, path_join P subs (win32_basename P p)]))"

fun m3u_entries :: "path_module \<Rightarrow> options \<Rightarrow> entry list \<Rightarrow> error + string list" where
  "m3u_entries P opts [] = Inr []"
| "m3u_entries P opts (e # es) =
     (case m3u_entry P opts e of
        Inl err \<Rightarrow> Inl err
      | Inr ls \<Rightarrow> (case m3u_entries P opts es of
                    Inl err \<Rightarrow> Inl err
                  | Inr rest \<Rightarrow> Inr (ls @ rest)))"

definition makeM3U :: "path_module \<Rightarrow> options \<Rightarrow> entry list \<Rightarrow> error + string" where
  "makeM3U P opts playlist =
     (case m3u_entries P opts playlist of
        Inl err \<Rightarrow> Inl err
      | Inr ls \<Rightarrow> Inr (join [CR, LF] ([''#EXTM3U''] @ ls @ [[]])))"

subsection \<open>The run\<close>

definition stop :: "string list \<Rightarrow> outcome" where
  \<comment> \<open>The run ends after these lines were logged, with no file written.\<close>
  "stop ls = \<lparr>logged = ls, usage = False, written = None\<rparr>"

definition info_lines :: "audio_track list \<Rightarrow> string list" where
  \<comment> \<open>Lines 106 to 111. \<^verbatim>\<open>join\<close> writes a name that is \<^verbatim>\<open>undefined\<close> as the empty string.\<close>
  "info_lines ts =
     [''Audition sesx information:'' @ [LF],
      ''Number of tracks: '' @ int_toString (int (length ts)) @ '' - (''
        @ join '', '' (map (\<lambda>t. case tname t of None \<Rightarrow> [] | Some n \<Rightarrow> n) ts) @ '')'']
     @ map (\<lambda>(i, t). ''  # of entries in track '' @ int_toString (int i) @ '': ''
                       @ int_toString (int (length (clips t))))
         (zip [0 ..< length ts] ts)
     @ [[]]"

definition int_delta :: "options \<Rightarrow> int" where
  \<comment> \<open>Line 75, \<^verbatim>\<open>const delta = options.delta|0\<close>: the option is a string or \<^verbatim>\<open>undefined\<close>.\<close>
  "int_delta opts = toInt32 (toNumber (delta opts))"

definition produce ::
  "path_module \<Rightarrow> filesys \<Rightarrow> options \<Rightarrow> string list \<Rightarrow> scan_state \<Rightarrow> error + outcome" where
  \<comment> \<open>Lines 115 to 149: build, sort, render, write. \<open>data\<close> is \<open>None\<close> for \<^verbatim>\<open>undefined\<close>, which
      \<^verbatim>\<open>writeFileSync\<close> refuses inside the \<^verbatim>\<open>try\<close>.\<close>
  "produce P F opts sesx st =
     (let dl = int_delta opts;
          raw = build sesx st (selection opts);
          playlist = sort_by by_startPoint (fst raw);
          outfile = args opts ! 1;
          ext = toLowerCase (extname P outfile);
          data = (if ext = ''.cue'' then map_sum id Some (makeCue P opts dl playlist)
                  else if ext = ''.m3u'' then map_sum id Some (makeM3U P opts playlist)
                  else Inr None)
      in case data of
           Inl err \<Rightarrow> Inl err
         | Inr d \<Rightarrow>
             (let file = (if canWrite F outfile then map_option (\<lambda>x. (outfile, x)) d else None)
              in Inr \<lparr>logged = [[]] @ snd raw @ [''Saving to: '' @ outfile]
                                @ (if file = None then [''Error: Could not write to out file!''] else [])
                                @ [''Done.'' @ [LF]],
                      usage = False,
                      written = file\<rparr>))"

definition main :: "path_module \<Rightarrow> filesys \<Rightarrow> options \<Rightarrow> error + outcome" where
  \<comment> \<open>The top-level block. The first logged line is the empty line of \<^verbatim>\<open>log()\<close>.\<close>
  "main P F opts =
     (if args_rejected P (args opts) then Inr \<lparr>logged = [[]], usage = True, written = None\<rparr>
      else
        (case readFile F (args opts ! 0) of
           None \<Rightarrow> Inr (stop [[], ''Could not open sesx infile.'' @ [LF]])
         | Some text \<Rightarrow>
             (let sesx = split text [LF]
              in case signature_rejected sesx of
                   Inl err \<Rightarrow> Inl err
                 | Inr True \<Rightarrow> Inr (stop [[], ''Not a valid Audition sesx file.'' @ [LF]])
                 | Inr False \<Rightarrow>
                     (case scan sesx of
                        Inl err \<Rightarrow> Inl err
                      | Inr st \<Rightarrow>
                          if \<not> truthy (sampleRate st)
                          then Inr (stop [[], ''Could not detect sample rate.''])
                          else if info opts then Inr (stop ([[]] @ info_lines (tracks st)))
                          else produce P F opts sesx st))))"

subsection \<open>An instance of the path functions\<close>

text \<open>
  Node's POSIX \<^verbatim>\<open>path\<close> functions, and \<^verbatim>\<open>path.win32.basename\<close>, on strings: the instance
  at which the examples below are evaluated. The theorems hold for every instance.
\<close>

definition last_part :: "(char \<Rightarrow> bool) \<Rightarrow> string \<Rightarrow> string" where
  \<comment> \<open>The last component of a path, trailing separators dropped.\<close>
  "last_part is_sep s = rev (takeWhile (\<lambda>c. \<not> is_sep c) (dropWhile is_sep (rev s)))"

definition posix_basename :: "string \<Rightarrow> string" where
  "posix_basename s = last_part (\<lambda>c. c = CHR ''/'') s"

definition posix_extname :: "string \<Rightarrow> string" where
  \<comment> \<open>From the last dot of the last component; empty when there is none, when the
      component starts with its only dot, and for \<^verbatim>\<open>..\<close>.\<close>
  "posix_extname s =
     (let base = posix_basename s;
          suffix = rev (takeWhile (\<lambda>c. c \<noteq> CHR ''.'') (rev base))
      in if CHR ''.'' \<notin> set base \<or> length suffix + 1 = length base \<or> base = ''..'' then []
         else CHR ''.'' # suffix)"

definition is_letter :: "char \<Rightarrow> bool" where
  "is_letter c = (let n = (of_char c :: nat) in (65 \<le> n \<and> n \<le> 90) \<or> (97 \<le> n \<and> n \<le> 122))"

definition win32_basename_str :: "string \<Rightarrow> string" where
  \<comment> \<open>Both separators count, and a drive prefix such as \<^verbatim>\<open>C:\<close> is skipped.\<close>
  "win32_basename_str s =
     last_part (\<lambda>c. c = CHR ''/'' \<or> c = CHR 0x5C)
       (case s of
          a # b # r \<Rightarrow> if is_letter a \<and> b = CHR '':'' then r else s
        | _ \<Rightarrow> s)"

fun normalize_parts :: "bool \<Rightarrow> string list \<Rightarrow> string list \<Rightarrow> string list" where
  \<comment> \<open>\<open>normalize_parts up acc ps\<close>: \<open>acc\<close> holds the components kept so far, last first.\<close>
  "normalize_parts up acc [] = rev acc"
| "normalize_parts up acc (p # ps) =
     (if p = [] \<or> p = ''.'' then normalize_parts up acc ps
      else if p = ''..'' then
        (case acc of
           [] \<Rightarrow> normalize_parts up (if up then [p] else []) ps
         | a # rest \<Rightarrow> if a = ''..'' then normalize_parts up (p # acc) ps
                    else normalize_parts up rest ps)
      else normalize_parts up (p # acc) ps)"

definition posix_normalize :: "string \<Rightarrow> string" where
  "posix_normalize s =
     (if s = [] then ''.''
      else
        (let absolute = (hd s = CHR ''/'');
             trailing = (last s = CHR ''/'');
             body = join ''/'' (normalize_parts (\<not> absolute) [] (split s ''/''))
         in if body = [] then (if absolute then ''/'' else if trailing then ''./'' else ''.'')
            else (if absolute then ''/'' else []) @ body @ (if trailing then ''/'' else [])))"

definition posix_join :: "string \<Rightarrow> string \<Rightarrow> string" where
  "posix_join a b =
     (if a = [] \<and> b = [] then ''.''
      else if a = [] then posix_normalize b
      else if b = [] then posix_normalize a
      else posix_normalize (a @ ''/'' @ b))"

definition posix :: path_module where
  "posix = \<lparr>extname = posix_extname, basename = posix_basename,
            win32_basename = win32_basename_str, path_join = posix_join\<rparr>"

subsection \<open>Notions used in the statements\<close>


definition clip_count :: "audio_track list \<Rightarrow> int \<Rightarrow> nat" where
  \<comment> \<open>The number of clips of the selected track, 0 for an index with no track.\<close>
  "clip_count ts t = (if has_track ts t then length (clips (ts ! nat t)) else 0)"

definition name_before_track :: "string list \<Rightarrow> bool" where
  \<comment> \<open>Some line has the shape of a name element and no line before it opens a track.\<close>
  "name_before_track sesx =
     (\<exists>i < length sesx. startsWith (trim (sesx ! i)) ''<name>'' \<and>
        (\<forall>j < i. \<not> startsWith (trim (sesx ! j)) ''<audioTrack ''))"


subsection \<open>Example sessions\<close>

definition attr :: "string \<Rightarrow> string \<Rightarrow> string" where
  \<comment> \<open>The text of an attribute \<^verbatim>\<open>k="v"\<close>.\<close>
  "attr k v = k @ ''='' @ [dq] @ v @ [dq]"

definition clip_line :: "string \<Rightarrow> string \<Rightarrow> string \<Rightarrow> string" where
  "clip_line n sp ep =
     ''  <audioClip '' @ attr ''fileID'' ''1'' @ '' '' @ attr ''name'' n @ '' ''
       @ attr ''startPoint'' sp @ '' '' @ attr ''endPoint'' ep @ ''>''"

definition header_lines :: "string list" where
  "header_lines = [''<?xml version=1?>'', ''<!DOCTYPE sesx>'']"

definition session_lines :: "string list" where
  \<comment> \<open>One track, sample rate 44100, clip A from 0 to 44100 named \<^verbatim>\<open>Art - Song\<close>, clip B
      from 88200 to 132300 named \<^verbatim>\<open>X\<close>.\<close>
  "session_lines = header_lines @
     [''<session '' @ attr ''sampleRate'' ''44100'' @ ''>'',
      ''<audioTrack x>'',
      '' <name>T1</name>'',
      clip_line ''Art - Song'' ''0'' ''44100'',
      clip_line ''X'' ''88200'' ''132300'',
      ''<file '' @ attr ''absolutePath'' ''a.wav'' @ '' '' @ attr ''id'' ''1'' @ ''>'']"

definition single_lines :: "string list" where
  \<comment> \<open>The same session with clip A alone.\<close>
  "single_lines = header_lines @
     [''<session '' @ attr ''sampleRate'' ''44100'' @ ''>'',
      ''<audioTrack x>'',
      clip_line ''Art - Song'' ''0'' ''44100'',
      ''<file '' @ attr ''absolutePath'' ''a.wav'' @ '' '' @ attr ''id'' ''1'' @ ''>'']"

definition half_lines :: "string list" where
  \<comment> \<open>One clip that starts at sample 22050, half a second in.\<close>
  "half_lines = header_lines @
     [''<session '' @ attr ''sampleRate'' ''44100'' @ ''>'',
      ''<audioTrack x>'',
      clip_line ''Art - Song'' ''22050'' ''44100'',
      ''<file '' @ attr ''absolutePath'' ''a.wav'' @ '' '' @ attr ''id'' ''1'' @ ''>'']"

definition orphan_lines :: "string list" where
  \<comment> \<open>Clip A alone, and no file reference: the path of its entry is \<^verbatim>\<open>null\<close>.\<close>
  "orphan_lines = header_lines @
     [''<session '' @ attr ''sampleRate'' ''44100'' @ ''>'',
      ''<audioTrack x>'',
      clip_line ''Art - Song'' ''0'' ''44100'']"

definition no_doctype_lines :: "string list" where
  \<comment> \<open>The first marker is there, the second is not.\<close>
  "no_doctype_lines = [''<?xml version=1?>'', ''<html>'']"

definition bad_rate_lines :: "string list" where
  "bad_rate_lines = header_lines @ [''<session '' @ attr ''sampleRate'' ''abc'' @ ''>'']"

definition stray_name_lines :: "string list" where
  \<comment> \<open>A name element before any track.\<close>
  "stray_name_lines = header_lines @ [''<name>N</name>'']"

definition disk :: "string list \<Rightarrow> filesys" where
  \<comment> \<open>A file system that holds the lines as \<^verbatim>\<open>a.sesx\<close> and accepts every write.\<close>
  "disk ls = \<lparr>readFile = (\<lambda>p. if p = ''a.sesx'' then Some (join [LF] ls) else None),
              canWrite = (\<lambda>_. True)\<rparr>"

definition cli :: "string \<Rightarrow> options" where
  \<comment> \<open>\<^verbatim>\<open>sesx2pl a.sesx <out>\<close> with no option.\<close>
  "cli out = \<lparr>args = [''a.sesx'', out], track = None, source = None, delta = None, info = False\<rparr>"

definition entry_at :: "rat \<Rightarrow> string \<Rightarrow> entry" where
  "entry_at sp n = \<lparr>startPoint = Fin sp, duration = Fin 1, path = Some ''a.wav'', name = n\<rparr>"

definition session_state :: scan_state where
  \<comment> \<open>What the scan of \<open>session_lines\<close> leaves.\<close>
  "session_state =
     \<lparr>tracks = [\<lparr>tname = Some ''T1'', tline = 3, clips = [5, 6]\<rparr>],
      files = [\<lparr>fpath = ''a.wav'', fid = Some ''1''\<rparr>],
      sampleRate = Fin 44100, cur = Some 0, name_seen = True\<rparr>"

definition single_state :: scan_state where
  "single_state =
     \<lparr>tracks = [\<lparr>tname = Some [], tline = 3, clips = [4]\<rparr>],
      files = [\<lparr>fpath = ''a.wav'', fid = Some ''1''\<rparr>],
      sampleRate = Fin 44100, cur = Some 0, name_seen = False\<rparr>"

definition orphan_state :: scan_state where
  "orphan_state =
     \<lparr>tracks = [\<lparr>tname = Some [], tline = 3, clips = [4]\<rparr>],
      files = [], sampleRate = Fin 44100, cur = Some 0, name_seen = False\<rparr>"

section \<open>Evaluating the examples\<close>

text \<open>
  The definitions are unfolded by the simplifier, a phase at a time: the lines of an example,
  its signature check, its scan and its raw playlist, and then the run.
\<close>

lemma floor_rat_divide_numeral:
  "\<lfloor>numeral a / numeral b :: rat\<rfloor> = numeral a div numeral b"
  by (metis floor_divide_of_int_eq of_int_numeral)

lemma floor_rat_one_divide_numeral:
  "\<lfloor>1 / numeral b :: rat\<rfloor> = 1 div numeral b"
  by (metis floor_divide_of_int_eq of_int_1 of_int_numeral)

lemma floor_rat_minus_divide_numeral:
  "\<lfloor>- (numeral a / numeral b) :: rat\<rfloor> = - numeral a div numeral b"
  by (metis divide_minus_left floor_divide_of_int_eq of_int_neg_numeral of_int_numeral)

lemma floor_rat_minus_one_divide_numeral:
  "\<lfloor>- (1 / numeral b) :: rat\<rfloor> = - 1 div numeral b"
  by (metis divide_minus_left floor_divide_of_int_eq of_int_1 of_int_minus of_int_numeral)

lemmas str_defs = trim_def is_ws_def startsWith_def toLowerCase_def lower_char_def capitals_def
  smalls_def dq_def LF_def CR_def is_line_terminator_def split_def padStart_def or_default_def
lemmas rx_defs = getRX_def match_here_def rxSampleRate_def rxTrackName_def rxPath_def rxName_def
  rxId_def rxStartPoint_def rxEndPoint_def rxFileId_def
lemmas num_defs = string_toNumber_def unsigned_decimal_def is_digit_def exponent_part_def
  digits_value_def digit_of_def pow10_def toNumber_def radix_literal_def toInt32_def trunc_def
  int_toString_def nat_digits.simps digit_char_def truthy_def js_sub_def positive_def
  floor_rat_divide_numeral floor_rat_one_divide_numeral floor_rat_minus_divide_numeral
  floor_rat_minus_one_divide_numeral
lemmas example_defs = session_lines_def single_lines_def half_lines_def orphan_lines_def no_doctype_lines_def
  bad_rate_lines_def stray_name_lines_def header_lines_def clip_line_def attr_def
lemmas path_defs = posix_def posix_extname_def posix_basename_def last_part_def
lemmas scan_defs = scan_def scan_init_def scan_line_def
lemmas build_defs = build_def build_step_def has_track_def selection_def make_entry_def

lemma args_cue: "\<not> args_rejected posix (args (cli ''out.cue''))"
  by (simp add: args_rejected_def cli_def path_defs str_defs)

lemma args_m3u: "\<not> args_rejected posix (args (cli ''out.m3u''))"
  by (simp add: args_rejected_def cli_def path_defs str_defs)

lemma ext_cue: "toLowerCase (extname posix ''out.cue'') = ''.cue''"
  by (simp add: path_defs str_defs)

lemma ext_m3u: "toLowerCase (extname posix ''out.m3u'') = ''.m3u''"
  by (simp add: path_defs str_defs)

lemma read_disk: "readFile (disk ls) (args (cli out) ! 0) = Some (join [LF] ls)"
  by (simp add: disk_def cli_def)

lemma split_session: "split (join [LF] session_lines) [LF] = session_lines"
  by (simp add: example_defs str_defs)

lemma split_single: "split (join [LF] single_lines) [LF] = single_lines"
  by (simp add: example_defs str_defs)


lemma split_orphan: "split (join [LF] orphan_lines) [LF] = orphan_lines"
  by (simp add: example_defs str_defs)

lemma split_no_doctype: "split (join [LF] no_doctype_lines) [LF] = no_doctype_lines"
  by (simp add: example_defs str_defs)

lemma split_bad_rate: "split (join [LF] bad_rate_lines) [LF] = bad_rate_lines"
  by (simp add: example_defs str_defs)

lemma split_stray_name: "split (join [LF] stray_name_lines) [LF] = stray_name_lines"
  by (simp add: example_defs str_defs)

lemma signature_session: "signature_rejected session_lines = Inr False"
  by (simp add: signature_rejected_def example_defs str_defs)

lemma signature_single: "signature_rejected single_lines = Inr False"
  by (simp add: signature_rejected_def example_defs str_defs)


lemma signature_orphan: "signature_rejected orphan_lines = Inr False"
  by (simp add: signature_rejected_def example_defs str_defs)

lemma signature_no_doctype: "signature_rejected no_doctype_lines = Inr False"
  by (simp add: signature_rejected_def example_defs str_defs)

lemma signature_bad_rate: "signature_rejected bad_rate_lines = Inr False"
  by (simp add: signature_rejected_def example_defs str_defs)

lemma signature_stray_name: "signature_rejected stray_name_lines = Inr False"
  by (simp add: signature_rejected_def example_defs str_defs)

lemma scan_session: "scan session_lines = Inr session_state"
  by (simp add: session_state_def scan_defs example_defs str_defs rx_defs num_defs)

lemma scan_single: "scan single_lines = Inr single_state"
  by (simp add: single_state_def scan_defs example_defs str_defs rx_defs num_defs)


lemma scan_orphan: "scan orphan_lines = Inr orphan_state"
  by (simp add: orphan_state_def scan_defs example_defs str_defs rx_defs num_defs)

lemma scan_no_doctype: "scan no_doctype_lines = Inr scan_init"
  by (simp add: scan_defs example_defs str_defs)

lemma scan_bad_rate: "scan bad_rate_lines = Inr (scan_init\<lparr>sampleRate := NaN\<rparr>)"
  by (simp add: scan_defs example_defs str_defs rx_defs num_defs)

lemma build_session:
  "build session_lines session_state (selection (cli out)) =
     ([entry_at 0 ''Art - Song'', entry_at 2 ''X''], [])"
  by (simp add: build_defs entry_at_def cli_def session_state_def example_defs str_defs rx_defs num_defs)

lemma build_single:
  "build single_lines single_state (selection (cli out)) = ([entry_at 0 ''Art - Song''], [])"
  by (simp add: build_defs entry_at_def cli_def single_state_def example_defs str_defs rx_defs num_defs)


lemma build_orphan:
  "build orphan_lines orphan_state (selection (cli out)) =
     ([(entry_at 0 ''Art - Song'')\<lparr>path := None\<rparr>], [])"
  by (simp add: build_defs entry_at_def cli_def orphan_state_def example_defs str_defs rx_defs num_defs)

lemma main_produce:
  assumes "\<not> args_rejected P (args opts)"
    and "readFile F (args opts ! 0) = Some text"
    and "split text [LF] = sesx"
    and "signature_rejected sesx = Inr False"
    and "scan sesx = Inr st"
    and "truthy (sampleRate st)"
    and "\<not> info opts"
  shows "main P F opts = produce P F opts sesx st"
  using assms by (simp add: main_def)

lemma produce_cue:
  assumes "toLowerCase (extname P (args opts ! 1)) = ''.cue''"
  shows "produce P F opts sesx st =
     (case makeCue P opts (int_delta opts)
             (sort_by by_startPoint (fst (build sesx st (selection opts)))) of
        Inl err \<Rightarrow> Inl err
      | Inr d \<Rightarrow>
          Inr \<lparr>logged = [[]] @ snd (build sesx st (selection opts))
                          @ [''Saving to: '' @ args opts ! 1]
                          @ (if canWrite F (args opts ! 1) then []
                             else [''Error: Could not write to out file!''])
                          @ [''Done.'' @ [LF]],
               usage = False,
               written = (if canWrite F (args opts ! 1) then Some (args opts ! 1, d) else None)\<rparr>)"
  using assms by (simp add: produce_def Let_def split: sum.splits)

lemma produce_m3u:
  assumes "toLowerCase (extname P (args opts ! 1)) = ''.m3u''"
  shows "produce P F opts sesx st =
     (case makeM3U P opts (sort_by by_startPoint (fst (build sesx st (selection opts)))) of
        Inl err \<Rightarrow> Inl err
      | Inr d \<Rightarrow>
          Inr \<lparr>logged = [[]] @ snd (build sesx st (selection opts))
                          @ [''Saving to: '' @ args opts ! 1]
                          @ (if canWrite F (args opts ! 1) then []
                             else [''Error: Could not write to out file!''])
                          @ [''Done.'' @ [LF]],
               usage = False,
               written = (if canWrite F (args opts ! 1) then Some (args opts ! 1, d) else None)\<rparr>)"
  using assms by (simp add: produce_def Let_def split: sum.splits)

lemma cue_track_X: "cue_track dl i (entry_at sp ''X'') = Inl TypeError"
  by (simp add: cue_track_def entry_at_def str_defs)

lemma cue_track_Art_Song:
  "cue_track 0 0 (entry_at 0 ''Art - Song'') =
     Inr [''  TRACK 01 AUDIO'', ''    TITLE '' @ [dq] @ ''Song'' @ [dq],
          ''    PERFORMER '' @ [dq] @ ''Art'' @ [dq], ''    INDEX 01 00:00:00'']"
  by (simp add: cue_track_def entry_at_def toCueTS_def str_defs num_defs)

lemma sort_two: "sort_by by_startPoint [entry_at 0 a, entry_at 2 b] = [entry_at 0 a, entry_at 2 b]"
  by (simp add: sort_by_def by_startPoint_def entry_at_def js_sub_def positive_def)

section \<open>Lemmas\<close>

subsection \<open>The signature check\<close>

lemma signature_rejected_two_lines:
  "signature_rejected (l0 # l1 # rest) =
     Inr (\<not> startsWith (toLowerCase (trim l0)) ''<?xml'' \<and>
          \<not> startsWith (trim l1) ''<!DOCTYPE sesx>'')"
  by (simp add: signature_rejected_def)

lemma signature_rejected_one_line:
  "signature_rejected [l0] =
     (if startsWith (toLowerCase (trim l0)) ''<?xml'' then Inr False else Inl TypeError)"
  by (simp add: signature_rejected_def)

subsection \<open>What the renderers write for one entry\<close>

lemma m3u_entry_lines:
  assumes "m3u_entry P opts e = Inr ls"
  shows "length ls = 2 \<and>
         ls ! 0 = ''#EXTINF:'' @ int_toString (toInt32 (duration e)) @ '',e.name''"
  using assms by (auto simp: m3u_entry_def Let_def split: option.splits if_splits)

lemma cue_track_one_piece:
  assumes "split (name e) '' - '' = [p]"
  shows "cue_track dl i e = Inl TypeError"
  using assms by (simp add: cue_track_def)

lemma cue_track_two_pieces:
  assumes "split (name e) '' - '' = a # t # rest"
  shows "cue_track dl i e =
     Inr [''  TRACK '' @ padStart 2 (CHR ''0'') (int_toString (int i + 1)) @ '' AUDIO'',
          ''    TITLE '' @ [dq] @ replace_all ''&amp;'' ''&'' (trim t) @ [dq],
          ''    PERFORMER '' @ [dq] @ replace_all ''&amp;'' ''&'' (trim a) @ [dq],
          ''    INDEX 01 '' @ toCueTS (js_add (startPoint e) (Fin (of_int dl)))]"
proof -
  have "(if p \<noteq> [] then trim p else []) = trim p" for p
    by (simp add: trim_def)
  with assms show ?thesis
    by (simp add: cue_track_def)
qed

subsection \<open>Scan\<close>

lemma only_TypeError: "(e :: error) = TypeError"
  by (cases e)

lemma startsWith_Cons:
  "startsWith l (c # p) = (case l of [] \<Rightarrow> False | d # l' \<Rightarrow> d = c \<and> startsWith l' p)"
  by (cases l) (simp_all add: startsWith_def)

lemma name_line_opens_no_track:
  assumes "startsWith l ''<name>''"
  shows "\<not> startsWith l ''<audioTrack ''"
  using assms by (auto simp: startsWith_Cons split: list.splits)

lemma scan_line_stray_name:
  assumes "cur st = None" and "\<not> name_seen st" and "startsWith (trim l) ''<name>''"
  shows "scan_line i l st = Inl TypeError"
  using assms name_line_opens_no_track [OF assms(3)] by (simp add: scan_line_def)

lemma scan_line_no_track:
  assumes "cur st = None" and "\<not> name_seen st" and "\<not> startsWith (trim l) ''<audioTrack ''"
    and "scan_line i l st = Inr st'"
  shows "cur st' = None \<and> \<not> name_seen st'"
  using assms
  by (auto simp: scan_line_def Let_def split: if_splits option.splits)

lemma scan_from_stray_name:
  assumes "cur st = None" and "\<not> name_seen st"
    and "k < length ls" and "startsWith (trim (ls ! k)) ''<name>''"
    and "\<forall>j < k. \<not> startsWith (trim (ls ! j)) ''<audioTrack ''"
  shows "scan_from i ls st = Inl TypeError"
  using assms
proof (induction ls arbitrary: st k i)
  case Nil
  then show ?case by simp
next
  case (Cons l ls)
  show ?case
  proof (cases k)
    case 0
    with Cons.prems show ?thesis
      by (simp add: scan_line_stray_name)
  next
    case (Suc k')
    from Cons.prems(5) Suc have head: "\<not> startsWith (trim l) ''<audioTrack ''"
      by auto
    show ?thesis
    proof (cases "scan_line i l st")
      case (Inl e)
      then show ?thesis by (simp add: only_TypeError)
    next
      case (Inr st')
      from scan_line_no_track [OF Cons.prems(1,2) head Inr]
      have st': "cur st' = None" "\<not> name_seen st'" by simp_all
      from Cons.prems(3,4) Suc have k': "k' < length ls" "startsWith (trim (ls ! k')) ''<name>''"
        by simp_all
      from Cons.prems(5) Suc have "\<forall>j < k'. \<not> startsWith (trim (ls ! j)) ''<audioTrack ''"
        by auto
      from Cons.IH [OF st' k' this] Inr show ?thesis
        by simp
    qed
  qed
qed

subsection \<open>Sort and render\<close>

lemma m3u_entries_null_path:
  assumes "source opts = Some s" and "s \<noteq> []" and "\<exists>e \<in> set pl. path e = None"
  shows "m3u_entries P opts pl = Inl TypeError"
  using assms(3)
proof (induction pl)
  case Nil
  then show ?case by simp
next
  case (Cons e es)
  show ?case
  proof (cases "path e")
    case None
    with assms(1,2) show ?thesis
      by (simp add: m3u_entry_def)
  next
    case (Some p)
    with Cons.prems have "\<exists>e \<in> set es. path e = None"
      by auto
    then have "m3u_entries P opts es = Inl TypeError"
      by (rule Cons.IH)
    then show ?thesis
      by (simp add: only_TypeError split: sum.splits)
  qed
qed

lemma set_insert_by: "set (insert_by cmp x ys) = insert x (set ys)"
  by (induction ys) auto

lemma set_sort_by: "set (sort_by cmp xs) = set xs"
  by (induction xs) (simp_all add: sort_by_def set_insert_by)

subsection \<open>Build\<close>

lemma build_fold:
  "foldl (build_step sesx st) acc sel =
     (fst acc @ concat (map (\<lambda>t. if has_track (tracks st) t
                                 then map (\<lambda>i. make_entry (files st) (sampleRate st) (sesx ! i))
                                        (clips (tracks st ! nat t))
                                 else []) sel),
      snd acc @ map (\<lambda>t. ''Project has no track '' @ int_toString t)
                  (filter (\<lambda>t. \<not> has_track (tracks st) t) sel))"
  by (induction sel arbitrary: acc) (simp_all add: build_step_def)

lemma fst_build:
  "fst (build sesx st sel) =
     concat (map (\<lambda>t. if has_track (tracks st) t
                      then map (\<lambda>i. make_entry (files st) (sampleRate st) (sesx ! i))
                             (clips (tracks st ! nat t))
                      else []) sel)"
  by (simp add: build_def build_fold)

lemma snd_build:
  "snd (build sesx st sel) =
     map (\<lambda>t. ''Project has no track '' @ int_toString t)
       (filter (\<lambda>t. \<not> has_track (tracks st) t) sel)"
  by (simp add: build_def build_fold)

lemma length_fst_build:
  "length (fst (build sesx st sel)) = sum_list (map (clip_count (tracks st)) sel)"
  by (induction sel) (simp_all add: fst_build clip_count_def)

lemma m3u_entries_plain:
  assumes "source opts = None"
  shows "\<exists>ls. m3u_entries P opts pl = Inr ls"
  by (induction pl) (auto simp: m3u_entry_def assms)

subsection \<open>The delta option\<close>










subsection \<open>What the run logs\<close>

lemma produce_logged:
  assumes "produce P F opts sesx st = Inr out"
  shows "3 \<le> length (logged out)"
  using assms by (auto simp: produce_def Let_def split: sum.splits if_splits)

lemma info_lines_length: "3 \<le> length (info_lines ts)"
  by (simp add: info_lines_def)

subsection \<open>Insertion by \<open>startPoint\<close>\<close>












subsection \<open>Timestamps\<close>





section \<open>The claims\<close>

text \<open>
  Claim C1, for the M3U renderer: each entry gives a line \<^verbatim>\<open>#EXTINF:<d>,<n>\<close> with \<open>d\<close> the
  duration truncated to an integer and \<open>n\<close> the entry's name, and then a path line.
  The template of line 181 has \<^verbatim>\<open>e.name\<close> outside of \<^verbatim>\<open>${ }\<close>, so the renderer writes the
  seven characters \<^verbatim>\<open>,e.name\<close> for every entry. The run below is the session with the one
  clip named \<^verbatim>\<open>Art - Song\<close>, written as M3U: the line is \<^verbatim>\<open>#EXTINF:1,e.name\<close>, where the
  claim has \<^verbatim>\<open>#EXTINF:1,Art - Song\<close>. The duration and the path line are as claimed.
\<close>

theorem m3u_extinf_literal_name:
  "main posix (disk single_lines) (cli ''out.m3u'') =
     Inr \<lparr>logged = [[], ''Saving to: out.m3u'', ''Done.'' @ [LF]], usage = False,
          written = Some (''out.m3u'',
            join [CR, LF] [''#EXTM3U'', ''#EXTINF:1,e.name'', ''a.wav'', []])\<rparr>"
proof -
  have ext: "toLowerCase (extname posix (args (cli ''out.m3u'') ! 1)) = ''.m3u''"
    by (simp add: cli_def ext_m3u)
  have render: "makeM3U posix (cli ''out.m3u'') [entry_at 0 ''Art - Song'']
                  = Inr (join [CR, LF] [''#EXTM3U'', ''#EXTINF:1,e.name'', ''a.wav'', []])"
    by (simp add: makeM3U_def m3u_entry_def cli_def entry_at_def num_defs)
  have "main posix (disk single_lines) (cli ''out.m3u'')
          = produce posix (disk single_lines) (cli ''out.m3u'') single_lines single_state"
    by (rule main_produce [OF args_m3u read_disk split_single signature_single scan_single])
       (simp_all add: single_state_def truthy_def cli_def)
  also have "\<dots> = Inr \<lparr>logged = [[], ''Saving to: out.m3u'', ''Done.'' @ [LF]], usage = False,
          written = Some (''out.m3u'',
            join [CR, LF] [''#EXTM3U'', ''#EXTINF:1,e.name'', ''a.wav'', []])\<rparr>"
    unfolding produce_m3u [OF ext] build_single
    by (simp add: sort_by_def render) (simp add: cli_def disk_def)
  finally show ?thesis .
qed

text \<open>
  Claim C2, for the CUE renderer: TITLE and PERFORMER come from splitting the name at
  \<^verbatim>\<open>" - "\<close>, and a name without the separator still gives a TRACK block, with an empty
  TITLE. In the script \<^verbatim>\<open>parts[1]\<close> is \<^verbatim>\<open>undefined\<close> for such a name and \<^verbatim>\<open>title.replace\<close>
  throws. The run below is the session of two clips, the second named \<^verbatim>\<open>X\<close>, written as
  CUE: it ends in a \<^verbatim>\<open>TypeError\<close> and writes nothing.
\<close>

theorem cue_name_without_separator:
  "main posix (disk session_lines) (cli ''out.cue'') = Inl TypeError"
proof -
  have ext: "toLowerCase (extname posix (args (cli ''out.cue'') ! 1)) = ''.cue''"
    by (simp add: cli_def ext_cue)
  have render: "makeCue posix opts 0 [entry_at 0 ''Art - Song'', entry_at 2 ''X''] = Inl TypeError" for opts
    by (simp add: makeCue_def cue_track_Art_Song cue_track_X)
  have dl: "int_delta (cli ''out.cue'') = 0"
    by (simp add: int_delta_def cli_def toNumber_def toInt32_def)
  have "main posix (disk session_lines) (cli ''out.cue'')
          = produce posix (disk session_lines) (cli ''out.cue'') session_lines session_state"
    by (rule main_produce [OF args_cue read_disk split_session signature_session scan_session])
       (simp_all add: session_state_def truthy_def cli_def)
  also have "\<dots> = Inl TypeError"
    unfolding produce_cue [OF ext] build_session
    by (simp add: sort_two dl render)
  finally show ?thesis .
qed

text \<open>
  Claim C3, for the signature check: a file is refused with the message
  \<^verbatim>\<open>Not a valid Audition sesx file.\<close> whenever one of the two marker lines does not match.
  Line 56 joins the two negated tests with \<^verbatim>\<open>&&\<close>, so a file is refused only when both
  lines fail. The file below has the first marker and \<^verbatim>\<open><html>\<close> as its second line: the
  check lets it pass, and the run ends later, at the sample rate. A file of one line
  without the first marker is not refused either: \<^verbatim>\<open>sesx[1]\<close> is \<^verbatim>\<open>undefined\<close> and the check
  itself throws.
\<close>

theorem signature_needs_both_to_fail:
  "signature_rejected no_doctype_lines = Inr False \<and>
   main posix (disk no_doctype_lines) (cli ''out.cue'') =
     Inr (stop [[], ''Could not detect sample rate.'']) \<and>
   signature_rejected (split ''hello'' [LF]) = Inl TypeError"
proof -
  have "signature_rejected (split ''hello'' [LF]) = Inl TypeError"
    by (simp add: signature_rejected_def str_defs)
  then show ?thesis
    by (simp add: main_def args_cue read_disk split_no_doctype signature_no_doctype
          scan_no_doctype scan_init_def truthy_def)
qed






text \<open>
  Claim C6, for the sample rate: when the scan leaves it zero (no session line was seen,
  or the attribute is zero) or \<^verbatim>\<open>NaN\<close> (the attribute is missing or not numeric), the run
  stops with \<^verbatim>\<open>Could not detect sample rate.\<close> and writes no file; with a positive sample
  rate the run does not end so. The hypotheses say that the run reaches the end of the
  scan.
\<close>

theorem sample_rate_fatal:
  assumes "\<not> args_rejected P (args opts)"
    and "readFile F (args opts ! 0) = Some text"
    and "signature_rejected (split text [LF]) = Inr False"
    and "scan (split text [LF]) = Inr st"
  shows "(sampleRate st = Fin 0 \<or> sampleRate st = NaN \<longrightarrow>
            main P F opts = Inr (stop [[], ''Could not detect sample rate.''])) \<and>
         (\<forall>r. sampleRate st = Fin r \<and> 0 < r \<longrightarrow>
            main P F opts \<noteq> Inr (stop [[], ''Could not detect sample rate.'']))"
proof (intro conjI impI allI)
  assume "sampleRate st = Fin 0 \<or> sampleRate st = NaN"
  then have "\<not> truthy (sampleRate st)"
    by (auto simp: truthy_def)
  with assms show "main P F opts = Inr (stop [[], ''Could not detect sample rate.''])"
    by (simp add: main_def)
next
  fix r
  assume "sampleRate st = Fin r \<and> 0 < r"
  then have t: "truthy (sampleRate st)"
    by (simp add: truthy_def)
  show "main P F opts \<noteq> Inr (stop [[], ''Could not detect sample rate.''])"
  proof (cases "info opts")
    case True
    with assms t have "main P F opts = Inr (stop ([[]] @ info_lines (tracks st)))"
      by (simp add: main_def)
    moreover have "length (logged (stop ([[]] @ info_lines (tracks st)))) \<noteq> 2"
      using info_lines_length [of "tracks st"] by (simp add: stop_def)
    ultimately show ?thesis
      by (auto simp: stop_def)
  next
    case False
    with assms t have m: "main P F opts = produce P F opts (split text [LF]) st"
      by (simp add: main_def)
    show ?thesis
    proof
      assume "main P F opts = Inr (stop [[], ''Could not detect sample rate.''])"
      with m have "produce P F opts (split text [LF]) st
                     = Inr (stop [[], ''Could not detect sample rate.''])"
        by simp
      from produce_logged [OF this] show False
        by (simp add: stop_def)
    qed
  qed
qed

theorem sample_rate_fatal_witness:
  "sampleRate (scan_init\<lparr>sampleRate := NaN\<rparr>) = NaN \<and>
   main posix (disk bad_rate_lines) (cli ''out.cue'')
     = Inr (stop [[], ''Could not detect sample rate.'']) \<and>
   sampleRate single_state = Fin 44100 \<and>
   main posix (disk single_lines) (cli ''out.m3u'')
     \<noteq> Inr (stop [[], ''Could not detect sample rate.''])"
proof -
  have s1: "scan (split (join [LF] bad_rate_lines) [LF]) = Inr (scan_init\<lparr>sampleRate := NaN\<rparr>)"
    by (simp add: split_bad_rate scan_bad_rate)
  have g1: "signature_rejected (split (join [LF] bad_rate_lines) [LF]) = Inr False"
    by (simp add: split_bad_rate signature_bad_rate)
  have s2: "scan (split (join [LF] single_lines) [LF]) = Inr single_state"
    by (simp add: split_single scan_single)
  have g2: "signature_rejected (split (join [LF] single_lines) [LF]) = Inr False"
    by (simp add: split_single signature_single)
  have r1: "sampleRate (scan_init\<lparr>sampleRate := NaN\<rparr>) = NaN"
    by simp
  have r2: "sampleRate single_state = Fin 44100"
    by (simp add: single_state_def)
  from sample_rate_fatal [OF args_cue read_disk g1 s1] r1
  have a: "main posix (disk bad_rate_lines) (cli ''out.cue'')
     = Inr (stop [[], ''Could not detect sample rate.''])"
    by blast
  from sample_rate_fatal [OF args_m3u read_disk g2 s2] r2
  have b: "main posix (disk single_lines) (cli ''out.m3u'')
     \<noteq> Inr (stop [[], ''Could not detect sample rate.''])"
    by simp
  from r1 a r2 b show ?thesis
    by (intro conjI)
qed

text \<open>
  Claim C7, for the build loop: the number of entries is the sum, over the selection
  list, of the clip counts of the tracks that exist; an index with no track gives one
  warning line, adds no entry, and the loop goes on with the next index. An index that
  occurs twice in the list counts twice. The last part is the run itself: with M3U output
  and no substitution directory it ends with \<^verbatim>\<open>Done.\<close>, the warnings in its log.
\<close>

theorem build_entry_count:
  "length (fst (build sesx st sel)) = sum_list (map (clip_count (tracks st)) sel) \<and>
   snd (build sesx st sel) =
     map (\<lambda>t. ''Project has no track '' @ int_toString t)
       (filter (\<lambda>t. \<not> has_track (tracks st) t) sel) \<and>
   (\<not> has_track (tracks st) t \<longrightarrow>
      fst (build sesx st (sel1 @ t # sel2)) = fst (build sesx st (sel1 @ sel2))) \<and>
   (source opts = None \<and> toLowerCase (extname P (args opts ! 1)) = ''.m3u'' \<longrightarrow>
      (\<exists>out. produce P F opts sesx st = Inr out \<and>
         logged out = [[]] @ snd (build sesx st (selection opts))
            @ [''Saving to: '' @ args opts ! 1]
            @ (if canWrite F (args opts ! 1) then [] else [''Error: Could not write to out file!''])
            @ [''Done.'' @ [LF]]))"
proof (intro conjI impI)
  show "length (fst (build sesx st sel)) = sum_list (map (clip_count (tracks st)) sel)"
    by (rule length_fst_build)
  show "snd (build sesx st sel) =
     map (\<lambda>t. ''Project has no track '' @ int_toString t)
       (filter (\<lambda>t. \<not> has_track (tracks st) t) sel)"
    by (rule snd_build)
  show "fst (build sesx st (sel1 @ t # sel2)) = fst (build sesx st (sel1 @ sel2))"
    if "\<not> has_track (tracks st) t"
    using that by (simp add: fst_build)
  show "\<exists>out. produce P F opts sesx st = Inr out \<and>
         logged out = [[]] @ snd (build sesx st (selection opts))
            @ [''Saving to: '' @ args opts ! 1]
            @ (if canWrite F (args opts ! 1) then [] else [''Error: Could not write to out file!''])
            @ [''Done.'' @ [LF]]"
    if h: "source opts = None \<and> toLowerCase (extname P (args opts ! 1)) = ''.m3u''"
  proof -
    obtain ls where "m3u_entries P opts (sort_by by_startPoint (fst (build sesx st (selection opts)))) = Inr ls"
      using m3u_entries_plain h by blast
    with h show ?thesis
      by (simp add: produce_m3u makeM3U_def)
  qed
qed

theorem build_entry_count_witness:
  "length (fst (build session_lines session_state [1, 0, - 1, 0])) = 4 \<and>
   snd (build session_lines session_state [1, 0, - 1, 0]) =
     [''Project has no track 1'', ''Project has no track -1''] \<and>
   fst (build session_lines session_state ([1, 0] @ (- 1) # [0])) =
     fst (build session_lines session_state ([1, 0] @ [0]))"
proof -
  have t: "has_track (tracks session_state) t = (t = 0)" for t
    by (auto simp: has_track_def session_state_def)
  have c: "clip_count (tracks session_state) t = (if t = 0 then 2 else 0)" for t
    by (simp add: clip_count_def t) (simp add: session_state_def)
  note T = build_entry_count [of session_lines session_state "[1, 0, - 1, 0]" "- 1" "[1, 0]" "[0]"]
  from T have "length (fst (build session_lines session_state [1, 0, - 1, 0]))
      = sum_list (map (clip_count (tracks session_state)) [1, 0, - 1, 0])"
    by (rule conjunct1)
  then have n: "length (fst (build session_lines session_state [1, 0, - 1, 0])) = 4"
    by (simp add: c)
  from T have "snd (build session_lines session_state [1, 0, - 1, 0]) =
     map (\<lambda>t. ''Project has no track '' @ int_toString t)
       (filter (\<lambda>t. \<not> has_track (tracks session_state) t) [1, 0, - 1, 0])"
    by (rule conjunct2 [THEN conjunct1])
  then have w: "snd (build session_lines session_state [1, 0, - 1, 0]) =
     [''Project has no track 1'', ''Project has no track -1'']"
    by (simp add: t num_defs)
  from T have "\<not> has_track (tracks session_state) (- 1) \<longrightarrow>
      fst (build session_lines session_state ([1, 0] @ (- 1) # [0]))
        = fst (build session_lines session_state ([1, 0] @ [0]))"
    by (rule conjunct2 [THEN conjunct2, THEN conjunct1])
  then have k: "fst (build session_lines session_state ([1, 0] @ (- 1) # [0]))
        = fst (build session_lines session_state ([1, 0] @ [0]))"
    by (simp add: t)
  from n w k show ?thesis
    by (intro conjI)
qed



text \<open>
  Claim C9, for the scanner: there are inputs that pass the signature check and make the
  run end in a type error, namely those with a line of the shape of a name element before
  any track header. The scanner then assigns the name to \<^verbatim>\<open>_track\<close>, which is still
  \<^verbatim>\<open>undefined\<close>. The theorem is that every such input ends so; its instance below is a
  file of the two marker lines and a name element.
\<close>

theorem stray_name_aborts:
  assumes "\<not> args_rejected P (args opts)"
    and "readFile F (args opts ! 0) = Some text"
    and "signature_rejected (split text [LF]) = Inr False"
    and "name_before_track (split text [LF])"
  shows "scan (split text [LF]) = Inl TypeError \<and> main P F opts = Inl TypeError"
proof -
  from assms(4) obtain k where "k < length (split text [LF])"
    and "startsWith (trim (split text [LF] ! k)) ''<name>''"
    and "\<forall>j < k. \<not> startsWith (trim (split text [LF] ! j)) ''<audioTrack ''"
    unfolding name_before_track_def by blast
  then have "scan (split text [LF]) = Inl TypeError"
    unfolding scan_def by (intro scan_from_stray_name) (simp_all add: scan_init_def)
  with assms(1-3) show ?thesis
    by (simp add: main_def)
qed

theorem stray_name_aborts_witness:
  "signature_rejected stray_name_lines = Inr False \<and>
   main posix (disk stray_name_lines) (cli ''out.cue'') = Inl TypeError"
proof -
  have "name_before_track stray_name_lines"
    unfolding name_before_track_def
    by (rule exI [of _ 2]) (simp add: example_defs str_defs numeral_2_eq_2 less_Suc_eq)
  then have "name_before_track (split (join [LF] stray_name_lines) [LF])"
    by (simp add: split_stray_name)
  with stray_name_aborts [OF args_cue read_disk, of stray_name_lines] signature_stray_name
  show ?thesis
    by (simp add: split_stray_name)
qed

text \<open>
  Claim C10, for the M3U renderer: with a substitution directory (a non-empty \<^verbatim>\<open>source\<close>
  option) and an entry whose path is \<^verbatim>\<open>null\<close>, the renderer calls \<^verbatim>\<open>Path.win32.basename\<close>
  on \<^verbatim>\<open>null\<close> and the run ends in a type error: no playlist is produced. The first part is
  the renderer on any playlist, the second the run from the raw playlist on (sorting keeps
  the entries).
\<close>

theorem m3u_null_path_aborts:
  assumes "source opts = Some s" and "s \<noteq> []" and "\<exists>e \<in> set pl. path e = None"
  shows "makeM3U P opts pl = Inl TypeError \<and>
    (toLowerCase (extname P (args opts ! 1)) = ''.m3u'' \<and>
     fst (build sesx st (selection opts)) = pl \<longrightarrow> produce P F opts sesx st = Inl TypeError)"
proof -
  have "makeM3U P opts pl' = Inl TypeError" if "set pl' = set pl" for pl'
    using that assms by (simp add: makeM3U_def m3u_entries_null_path)
  then show ?thesis
    by (simp add: produce_m3u set_sort_by)
qed

theorem m3u_null_path_aborts_witness:
  "source ((cli ''out.m3u'')\<lparr>source := Some ''music''\<rparr>) = Some ''music'' \<and>
   path ((entry_at 0 ''Art - Song'')\<lparr>path := None\<rparr>) = None \<and>
   main posix (disk orphan_lines) ((cli ''out.m3u'')\<lparr>source := Some ''music''\<rparr>) = Inl TypeError"
proof -
  let ?opts = "(cli ''out.m3u'')\<lparr>source := Some ''music''\<rparr>"
  let ?pl = "[(entry_at 0 ''Art - Song'')\<lparr>path := None\<rparr>]"
  have sel: "selection ?opts = selection (cli ''out.m3u'')"
    by (simp add: selection_def cli_def)
  have a: "\<not> args_rejected posix (args ?opts)"
    using args_m3u by (simp add: cli_def)
  have r: "readFile (disk orphan_lines) (args ?opts ! 0) = Some (join [LF] orphan_lines)"
    by (simp add: disk_def cli_def)
  have "main posix (disk orphan_lines) ?opts
          = produce posix (disk orphan_lines) ?opts orphan_lines orphan_state"
    by (rule main_produce [OF a r split_orphan signature_orphan scan_orphan])
       (simp_all add: orphan_state_def truthy_def cli_def)
  moreover have "produce posix (disk orphan_lines) ?opts orphan_lines orphan_state = Inl TypeError"
    using m3u_null_path_aborts [of ?opts "''music''" ?pl posix orphan_lines orphan_state "disk orphan_lines"]
    by (simp add: sel build_orphan) (simp add: cli_def ext_m3u)
  ultimately show ?thesis
    by (simp add: cli_def)
qed

end
